theory Spec2Isabelle
  imports Complex_Main
begin

section \<open>The metadata field registry\<close>

text \<open>
  The indices of \<^verbatim>\<open>os.stat_result\<close> are the ten \<^verbatim>\<open>stat.ST_*\<close> constants
  (\<^verbatim>\<open>ST_MODE = 0\<close>, ..., \<^verbatim>\<open>ST_CTIME = 9\<close>). A status is the ten-entry tuple that
  \<^verbatim>\<open>os.stat\<close> returns; indexing it by one of the constants gives an integer.
\<close>

datatype field =
  ST_MODE | ST_INO | ST_DEV | ST_NLINK | ST_UID | ST_GID | ST_SIZE | ST_ATIME | ST_MTIME | ST_CTIME

record stat_result =
  st_mode :: int
  st_ino :: int
  st_dev :: int
  st_nlink :: int
  st_uid :: int
  st_gid :: int
  st_size :: int
  st_atime :: int
  st_mtime :: int
  st_ctime :: int

text \<open>\<^verbatim>\<open>status[field]\<close>\<close>

fun stat_get :: "stat_result \<Rightarrow> field \<Rightarrow> int" where
  "stat_get s ST_MODE = st_mode s"
| "stat_get s ST_INO = st_ino s"
| "stat_get s ST_DEV = st_dev s"
| "stat_get s ST_NLINK = st_nlink s"
| "stat_get s ST_UID = st_uid s"
| "stat_get s ST_GID = st_gid s"
| "stat_get s ST_SIZE = st_size s"
| "stat_get s ST_ATIME = st_atime s"
| "stat_get s ST_MTIME = st_mtime s"
| "stat_get s ST_CTIME = st_ctime s"

text \<open>
  \<^verbatim>\<open>stat_info\<close> is a dictionary literal; iteration follows the order of the literal, so it
  is kept as an association list from the index to (option letter, field name, description).
\<close>

definition stat_info :: "(field \<times> string \<times> string \<times> string) list" where
  "stat_info =
    [(ST_MTIME, ''m'', ''mtime'', ''modification time''),
     (ST_ATIME, ''a'', ''atime'', ''access time''),
     (ST_CTIME, ''c'', ''ctime'', ''status time''),
     (ST_DEV, ''d'', ''dev'', ''device ID''),
     (ST_INO, ''i'', ''ino'', ''inode number''),
     (ST_MODE, ''M'', ''mode'', ''protection mode''),
     (ST_NLINK, ''n'', ''nlink'', ''number of hard links''),
     (ST_UID, ''u'', ''uid'', ''user ID of owner''),
     (ST_GID, ''g'', ''gid'', ''group ID of owner''),
     (ST_SIZE, ''s'', ''size'', ''total size'')]"

text \<open>
  \<^verbatim>\<open>_reverse_stat_info\<close>: for each index in turn, \<^verbatim>\<open>rinfo[opt] = rinfo[field] = index\<close>.
  The second argument is the dictionary built so far.
\<close>

fun reverse_stat_info ::
  "(field \<times> string \<times> string \<times> string) list \<Rightarrow> (string \<rightharpoonup> field) \<Rightarrow> (string \<rightharpoonup> field)" where
  "reverse_stat_info [] rinfo = rinfo"
| "reverse_stat_info ((index, opt, fld, desc) # rest) rinfo =
     reverse_stat_info rest (rinfo(fld \<mapsto> index, opt \<mapsto> index))"

definition rstat_info :: "string \<rightharpoonup> field" where
  "rstat_info = reverse_stat_info stat_info Map.empty"

section \<open>Strings\<close>

text \<open>
  Strings are lists of 8-bit characters. \<^verbatim>\<open>str.lower\<close> is modelled on the ASCII letters,
  which it maps to their lower-case form; every other character is left as it is.
\<close>

definition lower_char :: "char \<Rightarrow> char" where
  "lower_char c =
     (case map_of (zip ''ABCDEFGHIJKLMNOPQRSTUVWXYZ'' ''abcdefghijklmnopqrstuvwxyz'') c of
        None \<Rightarrow> c
      | Some l \<Rightarrow> l)"

definition lower :: "string \<Rightarrow> string" where
  "lower s = map lower_char s"

text \<open>
  \<^verbatim>\<open>string[a:b]\<close> for offsets \<open>0 \<le> a\<close>, \<open>0 \<le> b\<close>: the characters from \<open>a\<close> up to
  (not including) \<open>b\<close>, clipped to the string, empty when \<open>b \<le> a\<close>.
\<close>

definition slice :: "string \<Rightarrow> nat \<Rightarrow> nat \<Rightarrow> string" where
  "slice s a b = take (b - a) (drop a s)"

text \<open>
  \<^verbatim>\<open>s.find(delim)\<close> on a suffix: the lowest index at which \<open>delim\<close> starts, or \<open>None\<close> for
  Python's \<open>-1\<close>. An empty \<open>delim\<close> is found at index 0 of every string.
\<close>

fun find_str :: "string \<Rightarrow> string \<Rightarrow> nat option" where
  "find_str delim [] = (if delim = [] then Some 0 else None)"
| "find_str delim (c # cs) =
     (if take (length delim) (c # cs) = delim then Some 0
      else map_option Suc (find_str delim cs))"

text \<open>\<^verbatim>\<open>string.find(delim, start)\<close> with \<open>0 \<le> start\<close>; a start beyond the end finds nothing.\<close>

definition str_find :: "string \<Rightarrow> string \<Rightarrow> nat \<Rightarrow> nat option" where
  "str_find string delim start =
     (if length string < start then None
      else map_option (\<lambda>i. start + i) (find_str delim (drop start string)))"

text \<open>\<^verbatim>\<open>repr\<close> of an integer: its decimal digits, with a minus sign when negative.\<close>

fun digits :: "nat \<Rightarrow> string" where
  "digits n = (if n < 10 then [''0123456789'' ! n] else digits (n div 10) @ [''0123456789'' ! (n mod 10)])"

declare digits.simps [simp del]

definition repr_int :: "int \<Rightarrow> string" where
  "repr_int i = (if i < 0 then CHR ''-'' # digits (nat (- i)) else digits (nat i))"

section \<open>The token interpolator\<close>

text \<open>
  The exceptions that the package raises or lets through:
  \<^item> \<open>DelimiterMismatch\<close> is \<^verbatim>\<open>ValueError("delimiter mismatch")\<close>;
  \<^item> \<open>BadStatKey key\<close> is \<^verbatim>\<open>ValueError("bad stat key ...")\<close>, which names the key;
  \<^item> \<open>KeyError key\<close> is a failed dictionary lookup, \<open>IndexError\<close> is \<^verbatim>\<open>argv[0]\<close> on
    an empty list, \<open>AttributeError name\<close> a missing attribute;
  \<^item> \<open>OSError errno\<close> comes from \<^verbatim>\<open>os.stat\<close>;
  \<^item> \<open>SleepValueError\<close> is the \<^verbatim>\<open>ValueError\<close> of \<^verbatim>\<open>time.sleep\<close> on a negative duration;
  \<^item> \<open>CallbackRaised x\<close> is an exception \<open>x\<close> that escapes from the callback;
  \<^item> \<open>Timeout\<close> and \<open>SoftTimeout\<close> are the two exception classes of the package.
\<close>

datatype error =
  DelimiterMismatch
| BadStatKey string
| KeyError string
| IndexError
| AttributeError string
| OSError nat
| SleepValueError
| CallbackRaised string
| Timeout
| SoftTimeout

text \<open>
  \<^verbatim>\<open>find_tokens\<close> is a generator. What a consumer sees of it is a sequence of yielded
  (offset, key) pairs that ends either with the generator being exhausted or with the
  exception it raises.
\<close>

datatype token_stream =
  StopIteration
| Raise error
| Yield nat string token_stream

text \<open>
  The \<^verbatim>\<open>while delim_offset >= 0\<close> loop of \<^verbatim>\<open>find_tokens\<close>, entered with the current
  \<open>delim_offset\<close> (\<open>None\<close> for \<open>-1\<close>). The loop does not end for every input, so it is a
  partial function: \<open>None\<close> is a loop that runs forever.
\<close>

partial_function (option) find_tokens_loop ::
  "string \<Rightarrow> string \<Rightarrow> nat option \<Rightarrow> token_stream option" where
  "find_tokens_loop string delim delim_offset =
     (case delim_offset of
        None \<Rightarrow> Some StopIteration
      | Some token_offset \<Rightarrow>
          (let key_offset = token_offset + length delim in
           case str_find string delim key_offset of
             None \<Rightarrow> Some (Raise DelimiterMismatch)
           | Some delim_offset' \<Rightarrow>
               Option.bind
                 (find_tokens_loop string delim
                    (str_find string delim (delim_offset' + length delim)))
                 (\<lambda>rest. Some (if delim_offset' \<noteq> key_offset
                                then Yield token_offset (slice string key_offset delim_offset') rest
                                else rest))))"

definition find_tokens :: "string \<Rightarrow> string \<Rightarrow> token_stream option" where
  "find_tokens string delim = find_tokens_loop string delim (str_find string delim 0)"

text \<open>
  The \<^verbatim>\<open>for offset, key in find_tokens(string, delim)\<close> loop of \<^verbatim>\<open>interpolate_argument\<close>,
  with the loop variables \<open>last_offset\<close> and the buffer \<open>interp\<close> written so far.
  \<open>extra_keys\<close> is the dictionary of the keyword arguments.
\<close>

fun interpolate_loop ::
  "string \<Rightarrow> string \<Rightarrow> stat_result \<Rightarrow> (string \<rightharpoonup> string) \<Rightarrow> token_stream \<Rightarrow> nat \<Rightarrow> string
    \<Rightarrow> error + string" where
  "interpolate_loop string delim status extra_keys StopIteration last_offset interp =
     Inr (interp @ drop last_offset string)"
| "interpolate_loop string delim status extra_keys (Raise e) last_offset interp = Inl e"
| "interpolate_loop string delim status extra_keys (Yield offset key rest) last_offset interp =
     (let interp1 = interp @ slice string last_offset offset in
      case (if key \<noteq> [] then
              (if rstat_info (lower key) \<noteq> None then
                 (case rstat_info key of
                    None \<Rightarrow> Inl (KeyError key)
                  | Some fld \<Rightarrow> Inr (interp1 @ repr_int (stat_get status fld)))
               else if extra_keys key \<noteq> None then
                 (case extra_keys (lower key) of
                    None \<Rightarrow> Inl (KeyError (lower key))
                  | Some v \<Rightarrow> Inr (interp1 @ v))
               else Inl (BadStatKey key))
            else Inr interp1) of
        Inl e \<Rightarrow> Inl e
      | Inr interp2 \<Rightarrow>
          interpolate_loop string delim status extra_keys rest
            (offset + length key + 2 * length delim) interp2)"

definition interpolate_argument ::
  "string \<Rightarrow> string \<Rightarrow> stat_result \<Rightarrow> (string \<rightharpoonup> string) \<Rightarrow> (error + string) option" where
  "interpolate_argument string delim status extra_keys =
     map_option (\<lambda>tokens. interpolate_loop string delim status extra_keys tokens 0 [])
       (find_tokens string delim)"



subsection \<open>Notions used to state properties of the interpolator\<close>






section \<open>The watch loop\<close>

subsection \<open>The operating system\<close>

text \<open>
  The loop reads the clock, sleeps, calls \<^verbatim>\<open>os.stat\<close> and calls the callback. The state of
  everything outside the program is a value of an arbitrary type \<open>'w\<close>; each of these
  operations takes it and returns it changed. Clock readings and durations are Python
  floats; every float the loop meets is a rational number of seconds, so they are values
  of type \<open>rat\<close>. The float operations \<^verbatim>\<open>+\<close>, \<^verbatim>\<open>-\<close> and \<^verbatim>\<open>/\<close> round their result, so
  they are not computed here but taken from the platform as \<open>float_add\<close>, \<open>float_sub\<close>
  and \<open>float_div\<close>; comparisons and \<^verbatim>\<open>min\<close> are exact. \<^verbatim>\<open>os.stat\<close> returns the
  \<^verbatim>\<open>errno\<close> of the \<^verbatim>\<open>OSError\<close> it raises, or the status.
\<close>

record 'w os =
  time_time :: "'w \<Rightarrow> rat \<times> 'w"
  time_sleep :: "rat \<Rightarrow> 'w \<Rightarrow> 'w"
  os_stat :: "string \<Rightarrow> 'w \<Rightarrow> (nat + stat_result) \<times> 'w"
  float_add :: "rat \<Rightarrow> rat \<Rightarrow> rat"
  float_sub :: "rat \<Rightarrow> rat \<Rightarrow> rat"
  float_div :: "rat \<Rightarrow> rat \<Rightarrow> rat"

definition ENOENT :: nat where
  "ENOENT = 2"

definition sys_maxsize :: rat where
  "sys_maxsize = 2 ^ 63 - 1"

text \<open>
  The callback takes \<^verbatim>\<open>(path, diff, old, new)\<close>. It returns \<^verbatim>\<open>None\<close> (\<open>None\<close>), a true
  value (\<open>Some True\<close>) or a false value (\<open>Some False\<close>), or raises.
\<close>

type_synonym 'w callback =
  "string \<Rightarrow> field set \<Rightarrow> stat_result option \<Rightarrow> stat_result \<Rightarrow> 'w \<Rightarrow> (string + bool option) \<times> 'w"

text \<open>\<^verbatim>\<open>time.sleep(secs)\<close> raises \<^verbatim>\<open>ValueError\<close> when \<open>secs\<close> is negative.\<close>

definition sleep :: "'w os \<Rightarrow> rat \<Rightarrow> 'w \<Rightarrow> (error + unit) \<times> 'w" where
  "sleep os secs w =
     (if secs < 0 then (Inl SleepValueError, w) else (Inr (), time_sleep os secs w))"

definition try_stat :: "'w os \<Rightarrow> string \<Rightarrow> bool \<Rightarrow> 'w \<Rightarrow> (error + stat_result option) \<times> 'w" where
  "try_stat os path retry w =
     (case os_stat os path w of
        (Inr st, w') \<Rightarrow> (Inr (Some st), w')
      | (Inl errno, w') \<Rightarrow>
          (if errno \<noteq> ENOENT then (Inl (OSError errno), w')
           else if \<not> retry then (Inl (OSError errno), w')
           else (Inr None, w')))"

subsection \<open>The state of the loop\<close>

text \<open>
  The local variables \<open>ncalls\<close>, \<open>now\<close> and \<open>stats\<close> of \<^verbatim>\<open>watchstat\<close>, the state of the
  outside world, and the list of the callback invocations made so far, each with its
  four arguments.
\<close>

record 'w loop_state =
  ncalls :: int
  now :: rat
  stats :: "string \<rightharpoonup> stat_result option"
  world :: 'w
  calls :: "(string \<times> field set \<times> stat_result option \<times> stat_result) list"

text \<open>How one pass through the body of the \<^verbatim>\<open>for\<close> loop ends.\<close>

datatype flow = Next | Break

text \<open>
  \<^verbatim>\<open>stats = dict((path, try_stat(path, retry)) for path, fields in watchlist)\<close>;
  the third argument is the dictionary built so far.
\<close>

fun init_stats ::
  "'w os \<Rightarrow> (string \<times> field list) list \<Rightarrow> bool \<Rightarrow> (string \<rightharpoonup> stat_result option) \<Rightarrow> 'w
    \<Rightarrow> (error + (string \<rightharpoonup> stat_result option)) \<times> 'w" where
  "init_stats os [] retry acc w = (Inr acc, w)"
| "init_stats os ((path, flds) # rest) retry acc w =
     (case try_stat os path retry w of
        (Inl e, w') \<Rightarrow> (Inl e, w')
      | (Inr st, w') \<Rightarrow> init_stats os rest retry (acc(path \<mapsto> st)) w')"

text \<open>
  The fields that differ between the two statuses, or all of \<open>fields\<close> when there is no
  last status (lines 219 to 229 of the source).
\<close>

definition diff_fields :: "field list \<Rightarrow> stat_result option \<Rightarrow> stat_result \<Rightarrow> field set" where
  "diff_fields flds last_status next_status =
     (case last_status of
        Some last_st \<Rightarrow> set (filter (\<lambda>field_index. stat_get last_st field_index \<noteq> stat_get next_status field_index) flds)
      | None \<Rightarrow> set flds)"

text \<open>
  Lines 217 to 236, for a path whose status was read: the callback is invoked when some
  watched field differs or the path was just created. The result is how the pass through
  the loop body goes on (\<open>Break\<close> is the \<^verbatim>\<open>break\<close> of line 236) and the new value of the
  local variable \<open>continu\<close>, or the exception raised, together with the state reached.
\<close>

definition invoke ::
  "'w callback \<Rightarrow> string \<Rightarrow> field list \<Rightarrow> stat_result option \<Rightarrow> stat_result \<Rightarrow> bool option
    \<Rightarrow> 'w loop_state \<Rightarrow> (error + flow \<times> bool option) \<times> 'w loop_state" where
  "invoke callback path flds last_status next_status continu s =
     (let diff = diff_fields flds last_status next_status in
      if diff \<noteq> {} then
        (let s1 = s\<lparr>ncalls := ncalls s + 1\<rparr> in
         (case callback path diff last_status next_status (world s1) of
            (r, w) \<Rightarrow>
              (let s2 = s1\<lparr>world := w,
                          calls := calls s1 @ [(path, diff, last_status, next_status)]\<rparr> in
               (case r of
                  Inl x \<Rightarrow> (Inl (CallbackRaised x), s2)
                | Inr c \<Rightarrow>
                    if c \<noteq> None \<and> c \<noteq> Some True then (Inr (Break, c), s2)
                    else (Inr (Next, c), s2)))))
      else (Inr (Next, continu), s))"

text \<open>
  Lines 238 to 246, the end of the loop body: the status is stored, the clock is read and
  the end of the watch is tested.
\<close>

definition store_and_check ::
  "'w os \<Rightarrow> int \<Rightarrow> rat \<Rightarrow> rat \<Rightarrow> string \<Rightarrow> stat_result option \<Rightarrow> bool option \<Rightarrow> 'w loop_state
    \<Rightarrow> (error + flow \<times> bool option) \<times> 'w loop_state" where
  "store_and_check os limit softtimeout timeout path next_status continu s =
     (case time_time os (world s) of
        (t, w) \<Rightarrow>
          (let s1 = s\<lparr>stats := (stats s)(path \<mapsto> next_status), now := t, world := w\<rparr> in
           if (limit > 0 \<and> ncalls s1 \<ge> limit)
              \<or> (ncalls s1 = 0 \<and> now s1 \<ge> softtimeout)
              \<or> now s1 \<ge> timeout
           then (Inr (Break, Some False), s1)
           else (Inr (Next, continu), s1)))"

text \<open>
  The body of \<^verbatim>\<open>for path, fields in watchlist\<close> for one entry, with \<open>continu\<close> the local
  variable of that name.
\<close>

fun poll_path ::
  "'w os \<Rightarrow> 'w callback \<Rightarrow> int \<Rightarrow> bool \<Rightarrow> rat \<Rightarrow> rat \<Rightarrow> string \<times> field list \<Rightarrow> bool option
    \<Rightarrow> 'w loop_state \<Rightarrow> (error + flow \<times> bool option) \<times> 'w loop_state" where
  "poll_path os callback limit retry softtimeout timeout (path, fields0) continu s =
     (let flds = (if fields0 = [] then [ST_MTIME] else fields0) in
      (case try_stat os path retry (world s) of
         (Inl e, w1) \<Rightarrow> (Inl e, s\<lparr>world := w1\<rparr>)
       | (Inr next_status, w1) \<Rightarrow>
           (let s1 = s\<lparr>world := w1\<rparr> in
            (case stats s1 path of
               None \<Rightarrow> (Inl (KeyError path), s1)
             | Some last_status \<Rightarrow>
                 (case (case next_status of
                          None \<Rightarrow> (Inr (Next, continu), s1)
                        | Some next_st \<Rightarrow> invoke callback path flds last_status next_st continu s1) of
                    (Inl e, s2) \<Rightarrow> (Inl e, s2)
                  | (Inr (Break, c), s2) \<Rightarrow> (Inr (Break, c), s2)
                  | (Inr (Next, c), s2) \<Rightarrow>
                      store_and_check os limit softtimeout timeout path next_status c s2)))))"

declare poll_path.simps [simp del]

text \<open>The \<^verbatim>\<open>for\<close> loop over the watch list; it returns the final \<open>continu\<close>.\<close>

fun for_paths ::
  "'w os \<Rightarrow> 'w callback \<Rightarrow> int \<Rightarrow> bool \<Rightarrow> rat \<Rightarrow> rat \<Rightarrow> (string \<times> field list) list \<Rightarrow> bool option
    \<Rightarrow> 'w loop_state \<Rightarrow> (error + bool option) \<times> 'w loop_state" where
  "for_paths os callback limit retry softtimeout timeout [] continu s = (Inr continu, s)"
| "for_paths os callback limit retry softtimeout timeout (entry # rest) continu s =
     (case poll_path os callback limit retry softtimeout timeout entry continu s of
        (Inl e, s') \<Rightarrow> (Inl e, s')
      | (Inr (Break, c), s') \<Rightarrow> (Inr c, s')
      | (Inr (Next, c), s') \<Rightarrow>
          for_paths os callback limit retry softtimeout timeout rest c s')"

text \<open>
  The \<^verbatim>\<open>while\<close> loop of \<^verbatim>\<open>watchstat\<close>, with \<open>softtimeout\<close> and \<open>timeout\<close> the two absolute
  deadlines. Nothing bounds the number of its passes, so it is a partial function:
  \<open>None\<close> is a loop that runs forever.
\<close>

partial_function (option) while_loop ::
  "'w os \<Rightarrow> 'w callback \<Rightarrow> int \<Rightarrow> int \<Rightarrow> bool \<Rightarrow> rat \<Rightarrow> rat \<Rightarrow> (string \<times> field list) list
    \<Rightarrow> 'w loop_state \<Rightarrow> ((error + unit) \<times> 'w loop_state) option" where
  "while_loop os callback interval limit retry softtimeout timeout watchlist s =
     (if (limit \<le> 0 \<or> ncalls s < limit) \<and> (ncalls s > 0 \<or> now s < softtimeout) \<and> now s < timeout
      then
        (let sleep_dur = min (min (float_sub os softtimeout (now s)) (float_sub os timeout (now s)))
                             (float_div os (of_int interval) 1000) in
         case sleep os sleep_dur (world s) of
           (Inl e, w1) \<Rightarrow> Some (Inl e, s\<lparr>world := w1\<rparr>)
         | (Inr u, w1) \<Rightarrow>
             (case time_time os w1 of
                (t, w2) \<Rightarrow>
                  (let s1 = s\<lparr>now := t, world := w2\<rparr> in
                   if (ncalls s1 = 0 \<and> now s1 \<ge> softtimeout) \<or> now s1 \<ge> timeout
                   then Some (Inr (), s1)
                   else
                     (case for_paths os callback limit retry softtimeout timeout watchlist (Some True) s1 of
                        (Inl e, s2) \<Rightarrow> Some (Inl e, s2)
                      | (Inr continu, s2) \<Rightarrow>
                          if continu \<noteq> None \<and> continu \<noteq> Some True then Some (Inr (), s2)
                          else
                            (case time_time os (world s2) of
                               (t', w3) \<Rightarrow>
                                 while_loop os callback interval limit retry softtimeout timeout
                                   watchlist (s2\<lparr>now := t', world := w3\<rparr>))))))
      else Some (Inr (), s))"

text \<open>Lines 252 to 258: what \<^verbatim>\<open>watchstat\<close> raises or returns once the loop has ended.\<close>

definition signal :: "rat \<Rightarrow> rat \<Rightarrow> 'w loop_state \<Rightarrow> error + int" where
  "signal softtimeout timeout s =
     (if ncalls s = 0 \<and> now s \<ge> softtimeout then Inl SoftTimeout
      else if now s \<ge> timeout then Inl Timeout
      else Inr (ncalls s))"

text \<open>
  \<^verbatim>\<open>now + softtimeout if softtimeout else sys.maxsize\<close>: \<^verbatim>\<open>None\<close> and 0 both disable the
  deadline.
\<close>

definition deadline :: "'w os \<Rightarrow> rat \<Rightarrow> rat option \<Rightarrow> rat" where
  "deadline os t0 secs =
     (case secs of
        None \<Rightarrow> sys_maxsize
      | Some x \<Rightarrow> if x \<noteq> 0 then float_add os t0 x else sys_maxsize)"

definition watchstat ::
  "'w os \<Rightarrow> (string \<times> field list) list \<Rightarrow> 'w callback \<Rightarrow> int \<Rightarrow> int \<Rightarrow> bool \<Rightarrow> rat option \<Rightarrow> rat option
    \<Rightarrow> 'w \<Rightarrow> ((error + int) \<times> 'w loop_state) option" where
  "watchstat os watchlist callback interval limit retry softtimeout timeout w =
     (case time_time os w of
        (t0, w0) \<Rightarrow>
          (let softtimeout' = deadline os t0 softtimeout;
               timeout' = deadline os t0 timeout
           in case init_stats os watchlist retry Map.empty w0 of
                (Inl e, w1) \<Rightarrow>
                  Some (Inl e, \<lparr>ncalls = 0, now = t0, stats = Map.empty, world = w1, calls = []\<rparr>)
              | (Inr stats0, w1) \<Rightarrow>
                  (case while_loop os callback interval limit retry softtimeout' timeout' watchlist
                          \<lparr>ncalls = 0, now = t0, stats = stats0, world = w1, calls = []\<rparr> of
                     None \<Rightarrow> None
                   | Some (Inl e, s) \<Rightarrow> Some (Inl e, s)
                   | Some (Inr u, s) \<Rightarrow> Some (signal softtimeout' timeout' s, s))))"

subsection \<open>A scripted operating system\<close>

text \<open>
  One run of the loop is single-threaded and sees of the outside world only the answers
  to its calls, in order. Any behaviour of the outside world is therefore given by three
  scripts: the \<open>k\<close>-th reading of the clock, the answer to the \<open>k\<close>-th call of \<^verbatim>\<open>os.stat\<close>
  (which may depend on the path), and what the \<open>k\<close>-th invocation of the callback returns
  or raises. The world then only counts the calls and records the durations slept. Its
  arithmetic is exact.
\<close>

record script_world =
  clock_calls :: nat
  stat_calls :: nat
  callback_calls :: nat
  slept :: "rat list"

definition script_os ::
  "(nat \<Rightarrow> rat) \<Rightarrow> (nat \<Rightarrow> string \<Rightarrow> nat + stat_result) \<Rightarrow> script_world os" where
  "script_os clock fstat =
     \<lparr>time_time = (\<lambda>w. (clock (clock_calls w), w\<lparr>clock_calls := Suc (clock_calls w)\<rparr>)),
      time_sleep = (\<lambda>secs w. w\<lparr>slept := slept w @ [secs]\<rparr>),
      os_stat = (\<lambda>path w. (fstat (stat_calls w) path, w\<lparr>stat_calls := Suc (stat_calls w)\<rparr>)),
      float_add = (\<lambda>a b. a + b),
      float_sub = (\<lambda>a b. a - b),
      float_div = (\<lambda>a b. a / b)\<rparr>"

definition script_callback :: "(nat \<Rightarrow> string + bool option) \<Rightarrow> script_world callback" where
  "script_callback returns =
     (\<lambda>path diff last_status next_status w.
        (returns (callback_calls w), w\<lparr>callback_calls := Suc (callback_calls w)\<rparr>))"

definition script_start :: script_world where
  "script_start = \<lparr>clock_calls = 0, stat_calls = 0, callback_calls = 0, slept = []\<rparr>"

text \<open>A file whose ten status fields all have the value \<open>v\<close>, for use in examples.\<close>

definition stat_of :: "int \<Rightarrow> stat_result" where
  "stat_of v =
     \<lparr>st_mode = v, st_ino = v, st_dev = v, st_nlink = v, st_uid = v, st_gid = v, st_size = v,
      st_atime = v, st_mtime = v, st_ctime = v\<rparr>"

subsection \<open>Example runs\<close>

text \<open>
  A state of the loop in which \<^verbatim>\<open>/tmp/f\<close> is the only path known, with the given last
  status, before any call of the outside world.
\<close>

definition example_state :: "stat_result option \<Rightarrow> script_world loop_state" where
  "example_state last_status =
     \<lparr>ncalls = 0, now = 0, stats = [''/tmp/f'' \<mapsto> last_status], world = script_start, calls = []\<rparr>"

text \<open>
  An outside world in which the clock advances by a tenth of a second from one reading to
  the next and the \<open>k\<close>-th call of \<^verbatim>\<open>os.stat\<close> finds every field of the file equal to \<open>k\<close>.
\<close>

definition example_os :: "script_world os" where
  "example_os = script_os (\<lambda>k. of_nat k / 10) (\<lambda>k path. Inr (stat_of (int k)))"

text \<open>
  \<^verbatim>\<open>watchstat([("/tmp/f", [ST_MTIME])], callback, interval=100)\<close> in that world, with a
  callback that returns \<^verbatim>\<open>False\<close>.
\<close>

definition stop_example :: "((error + int) \<times> script_world loop_state) option" where
  "stop_example =
     watchstat example_os [(''/tmp/f'', [ST_MTIME])] (script_callback (\<lambda>k. Inr (Some False)))
       100 0 False None None script_start"

text \<open>
  \<^verbatim>\<open>watchstat([("/tmp/f", [ST_MTIME])], callback, interval=500, softtimeout=1)\<close> with a
  callback that returns \<^verbatim>\<open>None\<close>, in a world where the file changes between any two calls
  of \<^verbatim>\<open>os.stat\<close>, the clock reads 0 at the start and 0.5 after the first sleep, and the
  callback takes three quarters of a second, so that every later reading is 1.25. All
  the numbers of this run are binary fractions, on which the float operations are exact.
\<close>

definition sleep_example :: "((error + int) \<times> script_world loop_state) option" where
  "sleep_example =
     watchstat
       (script_os (\<lambda>k. if k = 0 then 0 else if k = 1 then 1 / 2 else 5 / 4)
          (\<lambda>k path. Inr (stat_of (int k))))
       [(''/tmp/f'', [ST_MTIME])] (script_callback (\<lambda>k. Inr None))
       500 0 False (Some 1) None script_start"

section \<open>The command line program\<close>

text \<open>
  The options that \<^verbatim>\<open>parse_args\<close> returns: a namespace with one attribute for each
  destination of its \<^verbatim>\<open>add_argument\<close> calls, namely \<^verbatim>\<open>verbose\<close>, \<^verbatim>\<open>watch\<close> (the
  destination of all the status field options), \<^verbatim>\<open>initial_run\<close>, \<^verbatim>\<open>limit\<close>, \<^verbatim>\<open>interval\<close>,
  \<^verbatim>\<open>timeout\<close>, \<^verbatim>\<open>softtimeout\<close>, \<^verbatim>\<open>force\<close>, \<^verbatim>\<open>retry\<close>, \<^verbatim>\<open>interp\<close>, \<^verbatim>\<open>command\<close> and
  \<^verbatim>\<open>args\<close>, and no other.
\<close>

record opts =
  opt_verbose :: nat
  opt_watch :: "(string \<times> field list) list"
  opt_initial_run :: bool
  opt_limit :: int
  opt_interval :: int
  opt_timeout :: int
  opt_softtimeout :: int
  opt_force :: bool
  opt_retry :: bool
  opt_interp :: "string option"
  opt_command :: string
  opt_args :: "string list"

text \<open>
  \<^verbatim>\<open>opts.path\<close>: the namespace has no attribute of that name, so the attribute access
  raises \<^verbatim>\<open>AttributeError\<close>.
\<close>

definition opts_path :: "opts \<Rightarrow> error + string" where
  "opts_path opts = Inl (AttributeError ''path'')"

text \<open>
  Lines 202 and 203 of \<^verbatim>\<open>main\<close>:
  \<^verbatim>\<open>if opts.initial_run: callback(set(), None, os.stat(opts.path))\<close>. The arguments of a
  call are evaluated before the call is made, so \<^verbatim>\<open>opts.path\<close> is evaluated first, then
  \<^verbatim>\<open>os.stat\<close> is called, then the callback, here with three arguments; \<open>callback3\<close> is
  what the callback does when it is called with three arguments.
\<close>

definition main_initial_run ::
  "'w os \<Rightarrow> opts \<Rightarrow> (field set \<Rightarrow> stat_result option \<Rightarrow> stat_result \<Rightarrow> 'w \<Rightarrow> (string + bool option) \<times> 'w)
    \<Rightarrow> 'w \<Rightarrow> (error + unit) \<times> 'w" where
  "main_initial_run os opts callback3 w =
     (if opt_initial_run opts then
        (case opts_path opts of
           Inl e \<Rightarrow> (Inl e, w)
         | Inr path \<Rightarrow>
             (case os_stat os path w of
                (Inl errno, w1) \<Rightarrow> (Inl (OSError errno), w1)
              | (Inr st, w1) \<Rightarrow>
                  (case callback3 {} None st w1 of
                     (Inl x, w2) \<Rightarrow> (Inl (CallbackRaised x), w2)
                   | (Inr c, w2) \<Rightarrow> (Inr (), w2))))
      else (Inr (), w))"

text \<open>
  Lines 201 to 214 of \<^verbatim>\<open>main\<close>, given the options and the callback built from them: the
  initial run, then the call of \<^verbatim>\<open>watchstat\<close>. The result is the exception that leaves
  these lines or the value \<^verbatim>\<open>watchstat\<close> returns, with the world reached, before the
  exception handlers of \<^verbatim>\<open>main\<close> turn it into an exit code. An exception of the initial
  run is raised outside the \<^verbatim>\<open>try\<close> block and \<^verbatim>\<open>watchstat\<close> is then not called.
\<close>

definition main_watch ::
  "'w os \<Rightarrow> opts \<Rightarrow> 'w callback
    \<Rightarrow> (field set \<Rightarrow> stat_result option \<Rightarrow> stat_result \<Rightarrow> 'w \<Rightarrow> (string + bool option) \<times> 'w)
    \<Rightarrow> 'w \<Rightarrow> ((error + int) \<times> 'w) option" where
  "main_watch os opts callback callback3 w =
     (case main_initial_run os opts callback3 w of
        (Inl e, w1) \<Rightarrow> Some (Inl e, w1)
      | (Inr u, w1) \<Rightarrow>
          map_option (\<lambda>(r, s). (r, world s))
            (watchstat os (opt_watch opts) callback (opt_interval opts) (opt_limit opts)
               (opt_retry opts) (Some (of_int (opt_softtimeout opts)))
               (Some (of_int (opt_timeout opts))) w1))"

section \<open>Properties of the token interpolator\<close>

lemmas interpolate_eval =
  interpolate_argument_def find_tokens_def find_tokens_loop.simps str_find_def slice_def
  lower_def lower_char_def rstat_info_def stat_info_def

text \<open>
  C2. Resolution of a key is not case-insensitive. The membership test of the first stage
  lower-cases the key, but the lookup that follows uses the key as written, so
  \<^verbatim>\<open>%MTIME%\<close> raises \<^verbatim>\<open>KeyError\<close> instead of giving the modification time. The second stage
  tests the key as written against the extra values, so \<^verbatim>\<open>%PATH%\<close> is reported as an
  unknown key although \<^verbatim>\<open>path\<close> is an extra value. The keys written in lower case resolve.
\<close>

theorem upper_case_key_not_resolved:
  "interpolate_argument ''%MTIME%'' ''%'' status Map.empty = Some (Inl (KeyError ''MTIME''))
   \<and> interpolate_argument ''%PATH%'' ''%'' status [''path'' \<mapsto> ''/tmp/f'']
       = Some (Inl (BadStatKey ''PATH''))
   \<and> interpolate_argument ''%mtime%'' ''%'' status Map.empty
       = Some (Inr (repr_int (st_mtime status)))
   \<and> interpolate_argument ''%path%'' ''%'' status [''path'' \<mapsto> ''/tmp/f''] = Some (Inr ''/tmp/f'')"
  by (simp add: interpolate_eval)

subsection \<open>Searching a string\<close>















subsection \<open>Repeated delimiters\<close>




subsection \<open>An odd number of delimiters\<close>













section \<open>Properties of the watch loop\<close>

lemmas poll_path_unfold =
  poll_path.simps invoke_def store_and_check_def Let_def

lemmas script_eval =
  script_os_def script_callback_def script_start_def example_state_def example_os_def
  try_stat_def stat_of_def diff_fields_def

text \<open>
  One pass through the loop body for a path whose last status is known and whose fresh
  status was read. When some watched field differs (or the path was just created), the
  callback is applied to the path, the diff and the two statuses in the world left by
  \<^verbatim>\<open>os.stat\<close>, and the invocation is counted; what follows depends on what it returns.
  When no watched field differs, the pass goes straight to the end of the loop body.
\<close>

lemma poll_path_fires:
  assumes "stats s path = Some last_status"
    and "try_stat os path retry (world s) = (Inr (Some next_st), w)"
    and "diff_fields (if entry_fields = [] then [ST_MTIME] else entry_fields) last_status next_st = diff"
    and "diff \<noteq> {}"
    and "callback path diff last_status next_st w = (r, w')"
  shows "poll_path os callback limit retry softtimeout timeout (path, entry_fields) continu s
         = (case r of
              Inl x \<Rightarrow>
                (Inl (CallbackRaised x),
                 s\<lparr>ncalls := ncalls s + 1, world := w',
                   calls := calls s @ [(path, diff, last_status, next_st)]\<rparr>)
            | Inr c \<Rightarrow>
                if c = Some False
                then (Inr (Break, Some False),
                      s\<lparr>ncalls := ncalls s + 1, world := w',
                        calls := calls s @ [(path, diff, last_status, next_st)]\<rparr>)
                else store_and_check os limit softtimeout timeout path (Some next_st) c
                       (s\<lparr>ncalls := ncalls s + 1, world := w',
                          calls := calls s @ [(path, diff, last_status, next_st)]\<rparr>))"
proof (cases r)
  case (Inl x)
  then show ?thesis
    using assms by (simp add: poll_path.simps invoke_def Let_def)
next
  case (Inr c)
  show ?thesis
  proof (cases "c = Some False")
    case True
    then show ?thesis
      using assms Inr by (simp add: poll_path.simps invoke_def Let_def)
  next
    case False
    then have "c = None \<or> c = Some True" by (cases c) auto
    then show ?thesis
      using assms Inr False by (auto simp add: poll_path.simps invoke_def Let_def)
  qed
qed

lemma poll_path_quiet:
  assumes "stats s path = Some last_status"
    and "try_stat os path retry (world s) = (Inr (Some next_st), w)"
    and "diff_fields (if entry_fields = [] then [ST_MTIME] else entry_fields) last_status next_st = {}"
  shows "poll_path os callback limit retry softtimeout timeout (path, entry_fields) continu s
         = store_and_check os limit softtimeout timeout path (Some next_st) continu (s\<lparr>world := w\<rparr>)"
  using assms by (simp add: poll_path.simps invoke_def Let_def)

lemma store_and_check_fields:
  "ncalls (snd (store_and_check os limit softtimeout timeout path next_status continu s)) = ncalls s"
  "calls (snd (store_and_check os limit softtimeout timeout path next_status continu s)) = calls s"
  "world (snd (store_and_check os limit softtimeout timeout path next_status continu s))
     = snd (time_time os (world s))"
  "stats (snd (store_and_check os limit softtimeout timeout path next_status continu s))
     = (stats s)(path \<mapsto> next_status)"
  by (simp_all add: store_and_check_def Let_def split: prod.splits)

text \<open>
  C3, as stated, fails. In the run \<open>stop_example\<close> the callback is invoked once, for the
  change from the status read at the start to the status read in the first poll, and
  returns \<^verbatim>\<open>False\<close>; the status stored for the path at the end is still the one read at
  the start.
\<close>

theorem stop_example_stats_not_updated:
  "stop_example \<noteq> None
   \<and> fst (the stop_example) = Inr 1
   \<and> calls (snd (the stop_example)) = [(''/tmp/f'', {ST_MTIME}, Some (stat_of 0), stat_of 1)]
   \<and> stats (snd (the stop_example)) ''/tmp/f'' = Some (Some (stat_of 0))
   \<and> stat_of 0 \<noteq> stat_of 1"
  by (simp add: stop_example_def watchstat_def while_loop.simps deadline_def sys_maxsize_def
      sleep_def signal_def poll_path_unfold script_eval del: set_filter)

text \<open>
  C3, amended. Let the callback be invoked for a path and return \<open>c\<close>. If \<open>c\<close> is
  \<^verbatim>\<open>False\<close>, the pass ends with the \<^verbatim>\<open>break\<close> of line 236 and \<open>continu = False\<close>, which
  ends the watch: the invocation has been counted and the world is the one the callback
  left, the clock is not read again, and the stored statuses are all as they were, so
  the status stored for the path is still the old one. If \<open>c\<close> is \<^verbatim>\<open>None\<close> or \<^verbatim>\<open>True\<close>, the
  stored statuses are those of before with the fresh status stored for the path.
\<close>

theorem stats_updated_unless_stopped:
  assumes "stats s path = Some last_status"
    and "try_stat os path retry (world s) = (Inr (Some next_st), w)"
    and "diff_fields (if entry_fields = [] then [ST_MTIME] else entry_fields) last_status next_st \<noteq> {}"
    and "callback path (diff_fields (if entry_fields = [] then [ST_MTIME] else entry_fields) last_status next_st)
           last_status next_st w = (Inr c, w')"
  shows "(if c = Some False
          then poll_path os callback limit retry softtimeout timeout (path, entry_fields) continu s
               = (Inr (Break, Some False),
                  s\<lparr>ncalls := ncalls s + 1, world := w',
                    calls := calls s @ [(path, diff_fields (if entry_fields = [] then [ST_MTIME] else entry_fields) last_status next_st, last_status, next_st)]\<rparr>)
          else stats (snd (poll_path os callback limit retry softtimeout timeout (path, entry_fields) continu s))
               = (stats s)(path \<mapsto> Some next_st))
         \<and> stats (snd (poll_path os callback limit retry softtimeout timeout (path, entry_fields) continu s)) path
           = (if c = Some False then Some last_status else Some (Some next_st))"
  using poll_path_fires [where callback = callback, OF assms(1) assms(2) refl assms(3) assms(4)] assms(1)
  by (simp add: store_and_check_fields)

theorem stats_updated_unless_stopped_witness:
  "stats (snd (poll_path example_os (script_callback (\<lambda>k. Inr None)) 0 False 100 100
                 (''/tmp/f'', []) (Some True) (example_state (Some (stat_of 7)))))
   = [''/tmp/f'' \<mapsto> Some (stat_of 0)]
   \<and> poll_path example_os (script_callback (\<lambda>k. Inr (Some False))) 0 False 100 100
                 (''/tmp/f'', []) (Some True) (example_state (Some (stat_of 7)))
     = (Inr (Break, Some False),
        \<lparr>ncalls = 1, now = 0, stats = [''/tmp/f'' \<mapsto> Some (stat_of 7)],
         world = script_start\<lparr>stat_calls := Suc 0, callback_calls := Suc 0\<rparr>,
         calls = [(''/tmp/f'', {ST_MTIME}, Some (stat_of 7), stat_of 0)]\<rparr>)"
proof -
  have h1: "stats (example_state (Some (stat_of 7))) ''/tmp/f'' = Some (Some (stat_of 7))"
    by (simp add: example_state_def)
  have h2: "try_stat example_os ''/tmp/f'' False (world (example_state (Some (stat_of 7))))
            = (Inr (Some (stat_of 0)), script_start\<lparr>stat_calls := Suc 0\<rparr>)"
    by (simp add: script_eval)
  have d: "diff_fields (if ([]::field list) = [] then [ST_MTIME] else []) (Some (stat_of 7)) (stat_of 0)
           = {ST_MTIME}"
    by (simp add: script_eval del: set_filter)
  have h3: "diff_fields (if ([]::field list) = [] then [ST_MTIME] else []) (Some (stat_of 7)) (stat_of 0) \<noteq> {}"
    by (simp only: d) simp
  have h4: "script_callback (\<lambda>k. Inr None) ''/tmp/f''
              (diff_fields (if ([]::field list) = [] then [ST_MTIME] else []) (Some (stat_of 7)) (stat_of 0))
              (Some (stat_of 7)) (stat_of 0) (script_start\<lparr>stat_calls := Suc 0\<rparr>)
            = (Inr None, script_start\<lparr>stat_calls := Suc 0, callback_calls := Suc 0\<rparr>)"
    by (simp add: script_callback_def script_start_def)
  have h5: "script_callback (\<lambda>k. Inr (Some False)) ''/tmp/f''
              (diff_fields (if ([]::field list) = [] then [ST_MTIME] else []) (Some (stat_of 7)) (stat_of 0))
              (Some (stat_of 7)) (stat_of 0) (script_start\<lparr>stat_calls := Suc 0\<rparr>)
            = (Inr (Some False), script_start\<lparr>stat_calls := Suc 0, callback_calls := Suc 0\<rparr>)"
    by (simp add: script_callback_def script_start_def)
  have t1: "stats (snd (poll_path example_os (script_callback (\<lambda>k. Inr None)) 0 False 100 100
                 (''/tmp/f'', []) (Some True) (example_state (Some (stat_of 7)))))
            = (stats (example_state (Some (stat_of 7))))(''/tmp/f'' \<mapsto> Some (stat_of 0))"
    using stats_updated_unless_stopped
      [where callback = "script_callback (\<lambda>k. Inr None)" and entry_fields = "[]" and limit = 0
         and softtimeout = 100 and timeout = 100 and continu = "Some True", OF h1 h2 h3 h4]
    by simp
  have t2: "poll_path example_os (script_callback (\<lambda>k. Inr (Some False))) 0 False 100 100
                 (''/tmp/f'', []) (Some True) (example_state (Some (stat_of 7)))
            = (Inr (Break, Some False),
               (example_state (Some (stat_of 7)))
                 \<lparr>ncalls := ncalls (example_state (Some (stat_of 7))) + 1,
                  world := script_start\<lparr>stat_calls := Suc 0, callback_calls := Suc 0\<rparr>,
                  calls := calls (example_state (Some (stat_of 7)))
                     @ [(''/tmp/f'', diff_fields (if ([]::field list) = [] then [ST_MTIME] else [])
                                       (Some (stat_of 7)) (stat_of 0), Some (stat_of 7), stat_of 0)]\<rparr>)"
    using stats_updated_unless_stopped
      [where callback = "script_callback (\<lambda>k. Inr (Some False))" and entry_fields = "[]" and limit = 0
         and softtimeout = 100 and timeout = 100 and continu = "Some True", OF h1 h2 h3 h5]
    by simp
  show ?thesis
    unfolding t1 t2 d by (simp add: example_state_def)
qed

text \<open>
  C7. When the last status of a path is \<^verbatim>\<open>None\<close> (the path was missing) and the poll finds
  the path, the callback is invoked whatever the values of the fields: the invocation is
  counted, its arguments are the path, the whole field set of the entry as the diff (the
  modification time alone when the entry names no field), \<^verbatim>\<open>None\<close> as the old status and
  the fresh status, and it is applied in the world \<open>w\<close> left by \<^verbatim>\<open>os.stat\<close>. The world
  after the pass is the world \<open>w'\<close> the callback left, followed by the reading of the
  clock of line 239 unless the callback stopped the watch or raised; an exception of the
  callback leaves the pass, and a false value breaks out of the loop.
\<close>

theorem created_path_fires_with_all_fields:
  assumes "stats s path = Some None"
    and "try_stat os path retry (world s) = (Inr (Some next_st), w)"
    and "callback path (set (if entry_fields = [] then [ST_MTIME] else entry_fields)) None next_st w = (r, w')"
  shows "ncalls (snd (poll_path os callback limit retry softtimeout timeout (path, entry_fields) continu s))
           = ncalls s + 1
         \<and> calls (snd (poll_path os callback limit retry softtimeout timeout (path, entry_fields) continu s))
           = calls s @ [(path, set (if entry_fields = [] then [ST_MTIME] else entry_fields), None, next_st)]
         \<and> world (snd (poll_path os callback limit retry softtimeout timeout (path, entry_fields) continu s))
           = (if r = Inr None \<or> r = Inr (Some True) then snd (time_time os w') else w')
         \<and> fst (poll_path os callback limit retry softtimeout timeout (path, entry_fields) continu s)
           = (case r of
                Inl x \<Rightarrow> Inl (CallbackRaised x)
              | Inr c \<Rightarrow>
                  if c = Some False then Inr (Break, Some False)
                  else fst (store_and_check os limit softtimeout timeout path (Some next_st) c
                         (s\<lparr>ncalls := ncalls s + 1, world := w',
                            calls := calls s @ [(path, set (if entry_fields = [] then [ST_MTIME] else entry_fields), None, next_st)]\<rparr>)))"
proof -
  have d: "diff_fields (if entry_fields = [] then [ST_MTIME] else entry_fields) None next_st
           = set (if entry_fields = [] then [ST_MTIME] else entry_fields)"
    by (simp add: diff_fields_def)
  have n: "set (if entry_fields = [] then [ST_MTIME] else entry_fields) \<noteq> {}"
    by simp
  have c: "r = Inr None \<or> r = Inr (Some True) \<or> r = Inr (Some False) \<or> (\<exists>x. r = Inl x)"
    by (cases r) auto
  show ?thesis
    using poll_path_fires [where callback = callback, OF assms(1) assms(2) d n assms(3)] c
    by (auto simp add: store_and_check_fields)
qed

theorem created_path_fires_with_all_fields_witness:
  "ncalls (snd (poll_path example_os (script_callback (\<lambda>k. Inr None)) 0 True 100 100
                 (''/tmp/f'', [ST_SIZE, ST_MTIME]) (Some True) (example_state None))) = 1
   \<and> calls (snd (poll_path example_os (script_callback (\<lambda>k. Inr None)) 0 True 100 100
                 (''/tmp/f'', [ST_SIZE, ST_MTIME]) (Some True) (example_state None)))
     = [(''/tmp/f'', {ST_SIZE, ST_MTIME}, None, stat_of 0)]
   \<and> callback_calls (world (snd (poll_path example_os (script_callback (\<lambda>k. Inr None)) 0 True 100 100
                 (''/tmp/f'', [ST_SIZE, ST_MTIME]) (Some True) (example_state None)))) = 1"
proof -
  have h1: "stats (example_state None) ''/tmp/f'' = Some None"
    by (simp add: example_state_def)
  have h2: "try_stat example_os ''/tmp/f'' True (world (example_state None))
            = (Inr (Some (stat_of 0)), script_start\<lparr>stat_calls := Suc 0\<rparr>)"
    by (simp add: script_eval)
  have h3: "script_callback (\<lambda>k. Inr None) ''/tmp/f''
              (set (if [ST_SIZE, ST_MTIME] = [] then [ST_MTIME] else [ST_SIZE, ST_MTIME]))
              None (stat_of 0) (script_start\<lparr>stat_calls := Suc 0\<rparr>)
            = (Inr None, script_start\<lparr>stat_calls := Suc 0, callback_calls := Suc 0\<rparr>)"
    by (simp add: script_callback_def script_start_def)
  show ?thesis
    using created_path_fires_with_all_fields
      [where callback = "script_callback (\<lambda>k. Inr None)" and entry_fields = "[ST_SIZE, ST_MTIME]"
         and limit = 0 and softtimeout = 100 and timeout = 100 and continu = "Some True", OF h1 h2 h3]
    by (simp add: example_state_def example_os_def script_os_def script_start_def)
qed

text \<open>
  C10. For an entry with no field, when the path had a status and still has one, the
  callback is invoked exactly when the modification time differs, and then with the
  modification time as the only field of the diff: the invocation is counted and the
  world after the pass is the one the callback left (followed by the reading of the
  clock unless it stopped the watch or raised). When the modification time is the same,
  whatever the access time and the other fields are, no invocation is counted and the
  world after the pass is the one \<^verbatim>\<open>os.stat\<close> left, followed by the reading of the clock:
  the callback is not applied.
\<close>

theorem empty_fields_watch_mtime_only:
  assumes "stats s path = Some (Some last_st)"
    and "try_stat os path retry (world s) = (Inr (Some next_st), w)"
    and "callback path {ST_MTIME} (Some last_st) next_st w = (r, w')"
  shows "(if st_mtime last_st \<noteq> st_mtime next_st
          then ncalls (snd (poll_path os callback limit retry softtimeout timeout (path, []) continu s))
                 = ncalls s + 1
               \<and> calls (snd (poll_path os callback limit retry softtimeout timeout (path, []) continu s))
                 = calls s @ [(path, {ST_MTIME}, Some last_st, next_st)]
               \<and> world (snd (poll_path os callback limit retry softtimeout timeout (path, []) continu s))
                 = (if r = Inr None \<or> r = Inr (Some True) then snd (time_time os w') else w')
               \<and> fst (poll_path os callback limit retry softtimeout timeout (path, []) continu s)
                 = (case r of
                      Inl x \<Rightarrow> Inl (CallbackRaised x)
                    | Inr c \<Rightarrow>
                        if c = Some False then Inr (Break, Some False)
                        else fst (store_and_check os limit softtimeout timeout path (Some next_st) c
                               (s\<lparr>ncalls := ncalls s + 1, world := w',
                                  calls := calls s @ [(path, {ST_MTIME}, Some last_st, next_st)]\<rparr>)))
          else ncalls (snd (poll_path os callback limit retry softtimeout timeout (path, []) continu s))
                 = ncalls s
               \<and> calls (snd (poll_path os callback limit retry softtimeout timeout (path, []) continu s))
                 = calls s
               \<and> world (snd (poll_path os callback limit retry softtimeout timeout (path, []) continu s))
                 = snd (time_time os w))"
proof (cases "st_mtime last_st = st_mtime next_st")
  case True
  then have d: "diff_fields (if ([]::field list) = [] then [ST_MTIME] else []) (Some last_st) next_st = {}"
    by (simp add: diff_fields_def)
  show ?thesis
    using poll_path_quiet [OF assms(1) assms(2) d] True
    by (simp add: store_and_check_fields)
next
  case False
  then have d: "diff_fields (if ([]::field list) = [] then [ST_MTIME] else []) (Some last_st) next_st = {ST_MTIME}"
    by (simp add: diff_fields_def)
  have n: "{ST_MTIME} \<noteq> {}"
    by simp
  have c: "r = Inr None \<or> r = Inr (Some True) \<or> r = Inr (Some False) \<or> (\<exists>x. r = Inl x)"
    by (cases r) auto
  show ?thesis
    using poll_path_fires [where callback = callback, OF assms(1) assms(2) d n assms(3)] c False
    by (auto simp add: store_and_check_fields)
qed

theorem empty_fields_watch_mtime_only_witness:
  "ncalls (snd (poll_path example_os (script_callback (\<lambda>k. Inr None)) 0 False 100 100
                 (''/tmp/f'', []) (Some True) (example_state (Some ((stat_of 0)\<lparr>st_atime := 5\<rparr>))))) = 0
   \<and> calls (snd (poll_path example_os (script_callback (\<lambda>k. Inr None)) 0 False 100 100
                 (''/tmp/f'', []) (Some True) (example_state (Some ((stat_of 0)\<lparr>st_atime := 5\<rparr>))))) = []
   \<and> callback_calls (world (snd (poll_path example_os (script_callback (\<lambda>k. Inr None)) 0 False 100 100
                 (''/tmp/f'', []) (Some True) (example_state (Some ((stat_of 0)\<lparr>st_atime := 5\<rparr>)))))) = 0
   \<and> ncalls (snd (poll_path example_os (script_callback (\<lambda>k. Inr None)) 0 False 100 100
                 (''/tmp/f'', []) (Some True) (example_state (Some ((stat_of 0)\<lparr>st_mtime := 5\<rparr>))))) = 1
   \<and> calls (snd (poll_path example_os (script_callback (\<lambda>k. Inr None)) 0 False 100 100
                 (''/tmp/f'', []) (Some True) (example_state (Some ((stat_of 0)\<lparr>st_mtime := 5\<rparr>)))))
     = [(''/tmp/f'', {ST_MTIME}, Some ((stat_of 0)\<lparr>st_mtime := 5\<rparr>), stat_of 0)]
   \<and> callback_calls (world (snd (poll_path example_os (script_callback (\<lambda>k. Inr None)) 0 False 100 100
                 (''/tmp/f'', []) (Some True) (example_state (Some ((stat_of 0)\<lparr>st_mtime := 5\<rparr>)))))) = 1"
proof -
  have a1: "stats (example_state (Some ((stat_of 0)\<lparr>st_atime := 5\<rparr>))) ''/tmp/f''
            = Some (Some ((stat_of 0)\<lparr>st_atime := 5\<rparr>))"
    by (simp add: example_state_def)
  have a2: "try_stat example_os ''/tmp/f'' False (world (example_state (Some ((stat_of 0)\<lparr>st_atime := 5\<rparr>))))
            = (Inr (Some (stat_of 0)), script_start\<lparr>stat_calls := Suc 0\<rparr>)"
    by (simp add: script_eval)
  have a3: "script_callback (\<lambda>k. Inr None) ''/tmp/f'' {ST_MTIME} (Some ((stat_of 0)\<lparr>st_atime := 5\<rparr>))
              (stat_of 0) (script_start\<lparr>stat_calls := Suc 0\<rparr>)
            = (Inr None, script_start\<lparr>stat_calls := Suc 0, callback_calls := Suc 0\<rparr>)"
    by (simp add: script_callback_def script_start_def)
  have m1: "stats (example_state (Some ((stat_of 0)\<lparr>st_mtime := 5\<rparr>))) ''/tmp/f''
            = Some (Some ((stat_of 0)\<lparr>st_mtime := 5\<rparr>))"
    by (simp add: example_state_def)
  have m2: "try_stat example_os ''/tmp/f'' False (world (example_state (Some ((stat_of 0)\<lparr>st_mtime := 5\<rparr>))))
            = (Inr (Some (stat_of 0)), script_start\<lparr>stat_calls := Suc 0\<rparr>)"
    by (simp add: script_eval)
  have m3: "script_callback (\<lambda>k. Inr None) ''/tmp/f'' {ST_MTIME} (Some ((stat_of 0)\<lparr>st_mtime := 5\<rparr>))
              (stat_of 0) (script_start\<lparr>stat_calls := Suc 0\<rparr>)
            = (Inr None, script_start\<lparr>stat_calls := Suc 0, callback_calls := Suc 0\<rparr>)"
    by (simp add: script_callback_def script_start_def)
  have e1: "st_mtime ((stat_of 0)\<lparr>st_atime := 5\<rparr>) = st_mtime (stat_of 0)"
    by (simp add: stat_of_def)
  have e2: "st_mtime (stat_of 0) \<noteq> 5"
    by (simp add: stat_of_def)
  have t1: "ncalls (snd (poll_path example_os (script_callback (\<lambda>k. Inr None)) 0 False 100 100
                 (''/tmp/f'', []) (Some True) (example_state (Some ((stat_of 0)\<lparr>st_atime := 5\<rparr>)))))
              = ncalls (example_state (Some ((stat_of 0)\<lparr>st_atime := 5\<rparr>)))
            \<and> calls (snd (poll_path example_os (script_callback (\<lambda>k. Inr None)) 0 False 100 100
                 (''/tmp/f'', []) (Some True) (example_state (Some ((stat_of 0)\<lparr>st_atime := 5\<rparr>)))))
              = calls (example_state (Some ((stat_of 0)\<lparr>st_atime := 5\<rparr>)))
            \<and> world (snd (poll_path example_os (script_callback (\<lambda>k. Inr None)) 0 False 100 100
                 (''/tmp/f'', []) (Some True) (example_state (Some ((stat_of 0)\<lparr>st_atime := 5\<rparr>)))))
              = snd (time_time example_os (script_start\<lparr>stat_calls := Suc 0\<rparr>))"
    using empty_fields_watch_mtime_only
      [where callback = "script_callback (\<lambda>k. Inr None)" and limit = 0 and softtimeout = 100
         and timeout = 100 and continu = "Some True", OF a1 a2 a3]
    by (simp add: e1)
  have t2: "ncalls (snd (poll_path example_os (script_callback (\<lambda>k. Inr None)) 0 False 100 100
                 (''/tmp/f'', []) (Some True) (example_state (Some ((stat_of 0)\<lparr>st_mtime := 5\<rparr>)))))
              = ncalls (example_state (Some ((stat_of 0)\<lparr>st_mtime := 5\<rparr>))) + 1
            \<and> calls (snd (poll_path example_os (script_callback (\<lambda>k. Inr None)) 0 False 100 100
                 (''/tmp/f'', []) (Some True) (example_state (Some ((stat_of 0)\<lparr>st_mtime := 5\<rparr>)))))
              = calls (example_state (Some ((stat_of 0)\<lparr>st_mtime := 5\<rparr>)))
                  @ [(''/tmp/f'', {ST_MTIME}, Some ((stat_of 0)\<lparr>st_mtime := 5\<rparr>), stat_of 0)]
            \<and> world (snd (poll_path example_os (script_callback (\<lambda>k. Inr None)) 0 False 100 100
                 (''/tmp/f'', []) (Some True) (example_state (Some ((stat_of 0)\<lparr>st_mtime := 5\<rparr>)))))
              = snd (time_time example_os (script_start\<lparr>stat_calls := Suc 0, callback_calls := Suc 0\<rparr>))"
    using empty_fields_watch_mtime_only
      [where callback = "script_callback (\<lambda>k. Inr None)" and limit = 0 and softtimeout = 100
         and timeout = 100 and continu = "Some True", OF m1 m2 m3]
    by (simp add: e2)
  show ?thesis
    using t1 t2
    by (simp add: example_state_def example_os_def script_os_def script_start_def)
qed


text \<open>
  Once the callback has been invoked, the loop goes on after the soft deadline has
  passed, but the duration of the sleep is still clamped to the soft deadline: it is
  negative, and \<^verbatim>\<open>time.sleep\<close> raises \<^verbatim>\<open>ValueError\<close>. The difference of two floats is
  negative exactly when the first is the smaller one; this is all that is asked of
  \<open>float_sub\<close> here.
\<close>

lemma while_loop_negative_sleep:
  assumes "limit \<le> 0 \<or> ncalls s < limit"
    and "0 < ncalls s"
    and "now s < timeout"
    and "float_sub os softtimeout (now s) < 0"
  shows "while_loop os callback interval limit retry softtimeout timeout watchlist s
         = Some (Inl SleepValueError, s)"
  using assms
  by (subst while_loop.simps) (simp add: sleep_def Let_def min_def)

text \<open>
  C4 does not hold of the code. In the run \<open>sleep_example\<close> the soft timeout is one second
  and no limit is set. The first pass sleeps half a second and invokes the callback once;
  when the callback returns the clock reads 1.25, past the soft deadline. The loop is
  entered again, the duration computed for the sleep is \<open>1 - 1.25\<close>, and \<^verbatim>\<open>watchstat\<close> ends
  with the \<^verbatim>\<open>ValueError\<close> of \<^verbatim>\<open>time.sleep\<close> instead of sleeping.
\<close>

theorem sleep_example_raises:
  "sleep_example \<noteq> None
   \<and> fst (the sleep_example) = Inl SleepValueError
   \<and> ncalls (snd (the sleep_example)) = 1
   \<and> now (snd (the sleep_example)) = 5 / 4
   \<and> slept (world (snd (the sleep_example))) = [1 / 2]
   \<and> callback_calls (world (snd (the sleep_example))) = 1"
  by (simp add: sleep_example_def watchstat_def while_loop.simps deadline_def sys_maxsize_def
      sleep_def signal_def poll_path_unfold script_os_def script_callback_def script_start_def
      try_stat_def stat_of_def diff_fields_def del: set_filter)

section \<open>Properties of the command line program\<close>

text \<open>
  C5 does not hold of the code. With the initial-run option set, \<^verbatim>\<open>main\<close> raises
  \<^verbatim>\<open>AttributeError\<close> for \<^verbatim>\<open>opts.path\<close> before anything is called: the world is the one
  \<^verbatim>\<open>main\<close> started in, so neither \<^verbatim>\<open>os.stat\<close> nor the callback has been called, and
  \<^verbatim>\<open>watchstat\<close> is not called, whatever the other options, the watched paths and the
  callback are.
\<close>

theorem initial_run_raises_attribute_error:
  "main_watch os (opts\<lparr>opt_initial_run := True\<rparr>) callback callback3 w
   = Some (Inl (AttributeError ''path''), w)"
  by (simp add: main_watch_def main_initial_run_def opts_path_def)

end
